theory Spec2Isabelle
  imports
    Main
    "HOL-Library.Word"
    "HOL-Library.Multiset"
    "HOL-Library.Char_ord"
    "HOL-Library.List_Lexorder"
begin

unbundle bit_operations_syntax

chapter \<open>gardener: encoding helpers, validation helpers and the finalizer protocol\<close>

section \<open>pkg/utils/encoding.go\<close>

text \<open>
  Go's \<open>[]byte\<close> is a list of 8-bit words, Go's \<open>string\<close> is an Isabelle \<open>string\<close>
  (a list of 8-bit characters). \<open>bytes_of\<close> is the conversion \<open>[]byte(s)\<close>.
\<close>

type_synonym byte = "8 word"

definition bytes_of :: "string \<Rightarrow> byte list" where
  "bytes_of s = map (\<lambda>c. of_nat (of_char c)) s"

subsection \<open>Standard library: encoding/base64 and encoding/hex\<close>




definition hex_digit :: "nat \<Rightarrow> char" where
  "hex_digit n = ''0123456789abcdef'' ! n"

definition hex_EncodeToString :: "byte list \<Rightarrow> string" where
  "hex_EncodeToString bs =
     concat (map (\<lambda>b. [hex_digit (unat (drop_bit 4 b)), hex_digit (unat (b AND 15))]) bs)"

subsection \<open>Standard library: crypto/sha1 (FIPS 180-4)\<close>

text \<open>The 32-bit words of SHA-1 are natural numbers below \<open>2 ^ 32\<close>, with the wrap-around
  of the additions and rotations written out.\<close>

definition add32 :: "nat \<Rightarrow> nat \<Rightarrow> nat" where
  "add32 a b = (a + b) mod 4294967296"

definition not32 :: "nat \<Rightarrow> nat" where
  "not32 a = 4294967295 - a mod 4294967296"

definition rotl32 :: "nat \<Rightarrow> nat \<Rightarrow> nat" where
  "rotl32 n w = (w * 2 ^ n) mod 4294967296 + (w mod 4294967296) div 2 ^ (32 - n)"

fun be32s :: "byte list \<Rightarrow> nat list" where
  "be32s (a # b # c # d # bs) =
     (unat a * 16777216 + unat b * 65536 + unat c * 256 + unat d) # be32s bs"
| "be32s _ = []"

fun chunks16 :: "'a list \<Rightarrow> 'a list list" where
  "chunks16 (w0 # w1 # w2 # w3 # w4 # w5 # w6 # w7 # w8 # w9 # w10 # w11 # w12 # w13 # w14 # w15 # ws) =
     [w0, w1, w2, w3, w4, w5, w6, w7, w8, w9, w10, w11, w12, w13, w14, w15] # chunks16 ws"
| "chunks16 _ = []"

definition be64_bytes :: "64 word \<Rightarrow> byte list" where
  "be64_bytes v = map (\<lambda>i. ucast (drop_bit i v)) [56, 48, 40, 32, 24, 16, 8, 0]"

text \<open>The padding of a message of \<open>n\<close> bytes: the byte \<open>0x80\<close>, zeros up to 56 modulo 64, and
  the length in bits as a 64-bit big-endian number (which wraps at \<open>2 ^ 64\<close>).\<close>

definition sha_padding :: "nat \<Rightarrow> byte list" where
  "sha_padding n = 0x80 # replicate ((119 - n mod 64) mod 64) 0 @ be64_bytes (of_nat (8 * n))"

definition sha_blocks :: "byte list \<Rightarrow> nat list list" where
  "sha_blocks msg = chunks16 (be32s (msg @ sha_padding (length msg)))"

fun iterate :: "nat \<Rightarrow> ('a \<Rightarrow> 'a) \<Rightarrow> 'a \<Rightarrow> 'a" where
  "iterate 0 f s = s"
| "iterate (Suc n) f s = iterate n f (f s)"

type_synonym sha1_state = "nat \<times> nat \<times> nat \<times> nat \<times> nat"

datatype sha1_phase = Ch | Parity | Maj

fun sha1_f :: "sha1_phase \<Rightarrow> nat \<Rightarrow> nat \<Rightarrow> nat \<Rightarrow> nat" where
  "sha1_f Ch b c d = (b AND c) OR (not32 b AND d)"
| "sha1_f Parity b c d = b XOR c XOR d"
| "sha1_f Maj b c d = ((b OR c) AND d) OR (b AND c)"

text \<open>One round of SHA-1 on the working variables and the sliding window of sixteen
  message-schedule words (the window always has sixteen words; the last equation is never
  reached from \<open>sha1_block\<close>).\<close>

fun sha1_step :: "sha1_phase \<Rightarrow> nat \<Rightarrow> sha1_state \<times> nat list \<Rightarrow> sha1_state \<times> nat list" where
  "sha1_step ph k ((a, b, c, d, e),
       w0 # w1 # w2 # w3 # w4 # w5 # w6 # w7 # w8 # w9 # w10 # w11 # w12 # w13 # w14 # w15 # ws) =
     ((add32 (add32 (add32 (add32 (rotl32 5 a) (sha1_f ph b c d)) e) w0) k, a, rotl32 30 b, c, d),
      [w1, w2, w3, w4, w5, w6, w7, w8, w9, w10, w11, w12, w13, w14, w15,
       rotl32 1 (w13 XOR w8 XOR w2 XOR w0)])"
| "sha1_step ph k s = s"

fun sha1_block :: "sha1_state \<Rightarrow> nat list \<Rightarrow> sha1_state" where
  "sha1_block (h0, h1, h2, h3, h4) blk =
     (case fst (iterate 20 (sha1_step Parity 0xCA62C1D6)
                (iterate 20 (sha1_step Maj 0x8F1BBCDC)
                  (iterate 20 (sha1_step Parity 0x6ED9EBA1)
                    (iterate 20 (sha1_step Ch 0x5A827999) ((h0, h1, h2, h3, h4), blk))))) of
        (a, b, c, d, e) \<Rightarrow> (add32 h0 a, add32 h1 b, add32 h2 c, add32 h3 d, add32 h4 e))"

definition u32_bytes :: "nat \<Rightarrow> byte list" where
  "u32_bytes w = [of_nat (w div 16777216), of_nat (w div 65536), of_nat (w div 256), of_nat w]"

definition sha1_Sum :: "byte list \<Rightarrow> byte list" where
  "sha1_Sum inp =
     (case foldl sha1_block (0x67452301, 0xEFCDAB89, 0x98BADCFE, 0x10325476, 0xC3D2E1F0)
             (sha_blocks inp) of
        (a, b, c, d, e) \<Rightarrow> concat (map u32_bytes [a, b, c, d, e]))"

subsection \<open>The helpers of encoding.go\<close>


definition SHA1 :: "byte list \<Rightarrow> byte list" where
  "SHA1 inp = sha1_Sum inp"




definition ComputeSHA1Hex :: "byte list \<Rightarrow> string" where
  "ComputeSHA1Hex inp = hex_EncodeToString (SHA1 inp)"


subsection \<open>HashForMap\<close>









section \<open>Secret replication\<close>


datatype client_error = ClientError string




section \<open>PEM and PKCS8 helpers of encoding.go\<close>

text \<open>
  \<open>encoding/pem\<close> and \<open>crypto/x509\<close> belong to the Go standard library; the functions
  \<open>x509.MarshalPKCS8PrivateKey\<close>, \<open>pem.EncodeToMemory\<close>, \<open>pem.Decode\<close> and
  \<open>x509.ParsePKCS8PrivateKey\<close> are parameters of the model. An \<open>error\<close> is its message.
\<close>

type_synonym error = string

record RSAPrivateKey =
  N :: int
  E :: int
  D :: int
  Primes :: "int list"

text \<open>What \<open>x509.ParsePKCS8PrivateKey\<close> returns as \<open>any\<close>: an RSA key, or a key of another
  algorithm.\<close>

datatype PrivateKey = RSAKey RSAPrivateKey | ECDSAKey "byte list" | Ed25519Key "byte list"

record Block =
  BlockType :: string
  Bytes :: "byte list"

definition EncodePrivateKeyInPKCS8 ::
  "(RSAPrivateKey \<Rightarrow> error + byte list) \<Rightarrow> (Block \<Rightarrow> byte list) \<Rightarrow> RSAPrivateKey \<Rightarrow> error + byte list" where
  "EncodePrivateKeyInPKCS8 MarshalPKCS8PrivateKey EncodeToMemory key =
     (case MarshalPKCS8PrivateKey key of
        Inl err \<Rightarrow> Inl err
      | Inr bytes \<Rightarrow> Inr (EncodeToMemory \<lparr>BlockType = ''RSA PRIVATE KEY'', Bytes = bytes\<rparr>))"

definition DecodeRSAPrivateKeyFromPKCS8 ::
  "(byte list \<Rightarrow> Block option) \<Rightarrow> (byte list \<Rightarrow> error + PrivateKey) \<Rightarrow> byte list \<Rightarrow> error + RSAPrivateKey" where
  "DecodeRSAPrivateKeyFromPKCS8 Decode ParsePKCS8PrivateKey bytes =
     (case Decode bytes of
        None \<Rightarrow> Inl ''could not decode the PEM-encoded RSA private key''
      | Some block \<Rightarrow>
          if BlockType block \<noteq> ''RSA PRIVATE KEY''
          then Inl ''could not decode the PEM-encoded RSA private key''
          else (case ParsePKCS8PrivateKey (Bytes block) of
                  Inl err \<Rightarrow> Inl err
                | Inr key \<Rightarrow>
                    (case key of
                       RSAKey rsaKey \<Rightarrow> Inr rsaKey
                     | _ \<Rightarrow> Inl ''the decoded key is not an RSA private key'')))"

text \<open>
  Stand-ins for the four library functions, to show that their contracts can be met together:
  a block is written as its type, a zero byte and its bytes; a key is written as the decimal
  digits of its modulus and exponents, when it has no primes listed.
\<close>

definition demo_EncodeToMemory :: "Block \<Rightarrow> byte list" where
  "demo_EncodeToMemory b = bytes_of (BlockType b) @ [0] @ Bytes b"

definition demo_Decode :: "byte list \<Rightarrow> Block option" where
  "demo_Decode bs =
     (if 0 \<in> set bs
      then Some \<lparr>BlockType = map (\<lambda>b. char_of (unat b)) (takeWhile (\<lambda>b. b \<noteq> 0) bs),
                 Bytes = tl (dropWhile (\<lambda>b. b \<noteq> 0) bs)\<rparr>
      else None)"

definition demoKey :: RSAPrivateKey where
  "demoKey = \<lparr>N = 3233, E = 17, D = 413, Primes = [61, 53]\<rparr>"

definition demo_Marshal :: "RSAPrivateKey \<Rightarrow> error + byte list" where
  "demo_Marshal key = (if key = demoKey then Inr [1, 2, 3] else Inl ''x509: unsupported key'')"

definition demo_Parse :: "byte list \<Rightarrow> error + PrivateKey" where
  "demo_Parse der = (if der = [1, 2, 3] then Inr (RSAKey demoKey) else Inl ''x509: failed to parse'')"

section \<open>pkg/apis/core/validation/utils.go\<close>

subsection \<open>Library: k8s.io/apimachinery field errors\<close>

text \<open>A \<open>*field.Path\<close> (\<open>Root\<close> is the nil path) and a \<open>*field.Error\<close>.\<close>

datatype Path = Root | Child Path string | Index Path nat

datatype ErrorType = ErrorTypeRequired | ErrorTypeInvalid | ErrorTypeNotSupported | ErrorTypeDuplicate

datatype BadValue = StringValue string | StringsValue "string list"

record Error =
  Type :: ErrorType
  Field :: Path
  Bad :: BadValue
  Detail :: string

definition Required :: "Path \<Rightarrow> string \<Rightarrow> Error" where
  "Required fld detail = \<lparr>Type = ErrorTypeRequired, Field = fld, Bad = StringValue '''', Detail = detail\<rparr>"

definition Invalid :: "Path \<Rightarrow> BadValue \<Rightarrow> string \<Rightarrow> Error" where
  "Invalid fld v detail = \<lparr>Type = ErrorTypeInvalid, Field = fld, Bad = v, Detail = detail\<rparr>"

fun join_quoted :: "string list \<Rightarrow> string" where
  "join_quoted [] = []"
| "join_quoted [v] = [CHR 0x22] @ v @ [CHR 0x22]"
| "join_quoted (v # vs) = [CHR 0x22] @ v @ [CHR 0x22] @ '', '' @ join_quoted vs"

definition NotSupported :: "Path \<Rightarrow> BadValue \<Rightarrow> string list \<Rightarrow> Error" where
  "NotSupported fld v validValues =
     \<lparr>Type = ErrorTypeNotSupported, Field = fld, Bad = v,
      Detail = ''supported values: '' @ join_quoted validValues\<rparr>"

definition Duplicate :: "Path \<Rightarrow> BadValue \<Rightarrow> Error" where
  "Duplicate fld v = \<lparr>Type = ErrorTypeDuplicate, Field = fld, Bad = v, Detail = ''''\<rparr>"

text \<open>\<open>sets.List\<close>: the members of a string set, sorted.\<close>

definition sets_List :: "string list \<Rightarrow> string list" where
  "sets_List members = sort (remdups members)"

text \<open>\<open>strings.Contains\<close>.\<close>

fun Contains :: "string \<Rightarrow> string \<Rightarrow> bool" where
  "Contains [] sub = (sub = [])"
| "Contains (c # s) sub = (take (length sub) (c # s) = sub \<or> Contains s sub)"

subsection \<open>What the file takes from other packages\<close>

text \<open>
  The constants of \<open>pkg/apis/core\<close> and \<open>pkg/features\<close> that the file uses are not among
  the sources and are parameters of the model. The state of \<open>features.DefaultFeatureGate\<close>,
  a mutable global of the process, is a function from feature names to their setting.
  \<open>IsDNS1123Subdomain\<close>, \<open>IsDNS1123Label\<close> and \<open>NameIsDNSSubdomain\<close> of
  k8s.io/apimachinery are parameters too.
\<close>

record Consts =
  FailureToleranceTypeNode :: string
  FailureToleranceTypeZone :: string
  IPFamilyIPv4 :: string
  IPFamilyIPv6 :: string
  IPv6SingleStack :: string

type_synonym FeatureGate = "string \<Rightarrow> bool"

definition Enabled :: "FeatureGate \<Rightarrow> string \<Rightarrow> bool" where
  "Enabled gate feature = gate feature"

record SecretReference =
  SecretName :: string
  SecretNamespace :: string

record CrossVersionObjectReference =
  APIVersion :: string
  Kind :: string
  RefName :: string

subsection \<open>The validators\<close>

definition ValidateName :: "(string \<Rightarrow> bool \<Rightarrow> string list) \<Rightarrow> string \<Rightarrow> bool \<Rightarrow> string list" where
  "ValidateName NameIsDNSSubdomain name prefix = NameIsDNSSubdomain name prefix"

definition validateSecretReference :: "SecretReference \<Rightarrow> Path \<Rightarrow> Error list" where
  "validateSecretReference ref fldPath =
     (let allErrs = [];
          allErrs = (if length (SecretName ref) = 0
                     then allErrs @ [Required (Child fldPath ''name'') ''must provide a name'']
                     else allErrs);
          allErrs = (if length (SecretNamespace ref) = 0
                     then allErrs @ [Required (Child fldPath ''namespace'') ''must provide a namespace'']
                     else allErrs)
      in allErrs)"

text \<open>\<open>corev1.SchemeGroupVersion.String()\<close> is \<open>v1\<close>.\<close>

definition validateCrossVersionObjectReference :: "CrossVersionObjectReference \<Rightarrow> Path \<Rightarrow> Error list" where
  "validateCrossVersionObjectReference ref fldPath =
     (let allErrs = [];
          allErrs = (if length (APIVersion ref) = 0
                     then allErrs @ [Required (Child fldPath ''apiVersion'') ''must provide an apiVersion'']
                     else if APIVersion ref \<noteq> ''v1''
                     then allErrs @ [NotSupported (Child fldPath ''apiVersion'') (StringValue (APIVersion ref)) [''v1'']]
                     else allErrs);
          allErrs = (if length (Kind ref) = 0
                     then allErrs @ [Required (Child fldPath ''kind'') ''must provide a kind'']
                     else if Kind ref \<noteq> ''Secret'' \<and> Kind ref \<noteq> ''ConfigMap''
                     then allErrs @ [NotSupported (Child fldPath ''kind'') (StringValue (Kind ref)) [''Secret'', ''ConfigMap'']]
                     else allErrs);
          allErrs = (if length (RefName ref) = 0
                     then allErrs @ [Required (Child fldPath ''name'') ''must provide a name'']
                     else allErrs)
      in allErrs)"

definition validateNameConsecutiveHyphens :: "string \<Rightarrow> Path \<Rightarrow> Error list" where
  "validateNameConsecutiveHyphens name fldPath =
     (if Contains name ''--''
      then [Invalid fldPath (StringValue name) ''name may not contain two consecutive hyphens'']
      else [])"

definition ValidateDNS1123Subdomain :: "(string \<Rightarrow> string list) \<Rightarrow> string \<Rightarrow> Path \<Rightarrow> Error list" where
  "ValidateDNS1123Subdomain IsDNS1123Subdomain v fldPath =
     map (\<lambda>msg. Invalid fldPath (StringValue v) msg) (IsDNS1123Subdomain v)"

definition validateDNS1123Label :: "(string \<Rightarrow> string list) \<Rightarrow> string \<Rightarrow> Path \<Rightarrow> Error list" where
  "validateDNS1123Label IsDNS1123Label v fldPath =
     map (\<lambda>msg. Invalid fldPath (StringValue v) msg) (IsDNS1123Label v)"

definition availableFailureTolerance :: "Consts \<Rightarrow> string list" where
  "availableFailureTolerance c = [FailureToleranceTypeNode c, FailureToleranceTypeZone c]"

definition ValidateFailureToleranceTypeValue :: "Consts \<Rightarrow> string \<Rightarrow> Path \<Rightarrow> Error list" where
  "ValidateFailureToleranceTypeValue c v fldPath =
     (if v \<notin> set (availableFailureTolerance c)
      then [NotSupported fldPath (StringValue v) (sets_List (availableFailureTolerance c))]
      else [])"

definition availableIPFamilies :: "Consts \<Rightarrow> string list" where
  "availableIPFamilies c = [IPFamilyIPv4 c, IPFamilyIPv6 c]"

text \<open>The loop of \<open>ValidateIPFamilies\<close> from index \<open>i\<close> on: \<open>seen\<close> is \<open>ipFamiliesSeen\<close>.\<close>

fun ipFamilies_loop :: "Consts \<Rightarrow> Path \<Rightarrow> nat \<Rightarrow> string list \<Rightarrow> string list \<Rightarrow> Error list \<Rightarrow> Error list" where
  "ipFamilies_loop c fldPath i [] seen allErrs = allErrs"
| "ipFamilies_loop c fldPath i (ipFamily # rest) seen allErrs =
     (let allErrs = (if ipFamily \<notin> set (availableIPFamilies c)
                     then allErrs @ [NotSupported (Index fldPath i) (StringValue ipFamily)
                                       (sets_List (availableIPFamilies c))]
                     else allErrs)
      in if ipFamily \<in> set seen
         then ipFamilies_loop c fldPath (Suc i) rest seen
                (allErrs @ [Duplicate (Index fldPath i) (StringValue ipFamily)])
         else ipFamilies_loop c fldPath (Suc i) rest (ipFamily # seen) allErrs)"

definition ValidateIPFamilies :: "Consts \<Rightarrow> FeatureGate \<Rightarrow> string list \<Rightarrow> Path \<Rightarrow> Error list" where
  "ValidateIPFamilies c gate ipFamilies fldPath =
     (let allErrs = ipFamilies_loop c fldPath 0 ipFamilies [] []
      in if length allErrs > 0 then allErrs
         else if length ipFamilies > 0 \<and> hd ipFamilies = IPFamilyIPv6 c
                 \<and> \<not> Enabled gate (IPv6SingleStack c)
         then allErrs @ [Invalid fldPath (StringsValue ipFamilies)
                           ''IPv6 single-stack networking is not supported'']
         else allErrs)"

text \<open>The values the constants have in the repository, and two states of the feature gate:
  \<open>IPv6SingleStack\<close> disabled, and enabled.\<close>

definition gardenerConsts :: Consts where
  "gardenerConsts =
     \<lparr>FailureToleranceTypeNode = ''node'', FailureToleranceTypeZone = ''zone'',
      IPFamilyIPv4 = ''IPv4'', IPFamilyIPv6 = ''IPv6'', IPv6SingleStack = ''IPv6SingleStack''\<rparr>"

definition gateDisabled :: FeatureGate where
  "gateDisabled feature = False"

definition gateEnabled :: FeatureGate where
  "gateEnabled feature = (feature = ''IPv6SingleStack'')"

section \<open>The dependency-tracked finalizer reconciler\<close>

text \<open>
  Modelled from the spec: the reconciler, its Finalizer Guard, its Dependent Index and the
  object store they talk to are not among the sources; only the integration test
  \<open>test/integration/controllermanager/exposureclass\<close> is, which observes the finalizer
  \<open>gardener\<close> on an ExposureClass (the Parent) referenced by Shoots (the Dependents). The
  definitions of this section follow sections 3, 4, 6 and 7 of the spec. A reconcile pass is
  one function on the store: nothing else touches the store while a pass runs.
\<close>

subsection \<open>Data model (spec, section 3)\<close>

type_synonym ident = string

record Parent =
  finalizers :: "string list"
  deletionTimestamp :: "nat option"
  resourceVersion :: nat

record Dependent =
  dependentID :: ident
  reference :: "ident option"

text \<open>Modelled from the spec: the finalizer token, "a fixed, well-known string"; the test
  expects \<open>gardener\<close>.\<close>

definition guardToken :: string where
  "guardToken = ''gardener''"

text \<open>Modelled from the spec: the error taxonomy of the store client (section 6).\<close>

datatype store_error = NotFound | Conflict | Transient

text \<open>What the Guard and the Index did, newest first: kept to state the ordering of the
  Index query and the guard removal.\<close>

datatype event = Attached ident | Queried ident bool | Removed ident

text \<open>
  Modelled from the spec: the object store. \<open>faults\<close> scripts the store's availability: each
  call of the client takes the head of the list, and fails with \<open>Transient\<close> when it is
  \<open>True\<close> (an empty list is a store that is up). \<open>writes\<close> counts the updates the store
  has committed.
\<close>

record Store =
  parents :: "ident \<rightharpoonup> Parent"
  dependents :: "Dependent list"
  clock :: nat
  faults :: "bool list"
  writes :: nat
  log :: "event list"

definition emptyStore :: Store where
  "emptyStore = \<lparr>parents = Map.empty, dependents = [], clock = 0, faults = [], writes = 0, log = []\<rparr>"

definition unavailable :: "Store \<Rightarrow> bool" where
  "unavailable s = (case faults s of [] \<Rightarrow> False | f # fs \<Rightarrow> f)"

definition called :: "Store \<Rightarrow> Store" where
  "called s = s\<lparr>faults := tl (faults s)\<rparr>"

subsection \<open>Store client (spec, section 6)\<close>

text \<open>Modelled from the spec: \<open>Get(kind, id) \<rightarrow> (obj, error)\<close> for Parents.\<close>

definition Get :: "Store \<Rightarrow> ident \<Rightarrow> (store_error + Parent) \<times> Store" where
  "Get s i =
     (if unavailable s then (Inl Transient, called s)
      else case parents s i of
             None \<Rightarrow> (Inl NotFound, called s)
           | Some p \<Rightarrow> (Inr p, called s))"

text \<open>Modelled from the spec: \<open>List(kind, selector) \<rightarrow> (objs, error)\<close> for Dependents,
  filtered by the reference field and limited to a page of \<open>limit\<close> objects.\<close>

definition List :: "Store \<Rightarrow> ident \<Rightarrow> nat \<Rightarrow> (store_error + Dependent list) \<times> Store" where
  "List s parentID limit =
     (if unavailable s then (Inl Transient, called s)
      else (Inr (take limit (filter (\<lambda>d. reference d = Some parentID) (dependents s))), called s))"

text \<open>Modelled from the spec: \<open>Update(obj) \<rightarrow> (obj, error)\<close>, conditioned on the
  resource-version; the store "performs hard removal automatically once the finalizer set
  becomes empty" on an object whose deletion-timestamp is set.\<close>

definition Update :: "Store \<Rightarrow> ident \<Rightarrow> Parent \<Rightarrow> (store_error + Parent) \<times> Store" where
  "Update s i obj =
     (if unavailable s then (Inl Transient, called s)
      else case parents s i of
             None \<Rightarrow> (Inl NotFound, called s)
           | Some cur \<Rightarrow>
               if resourceVersion cur \<noteq> resourceVersion obj then (Inl Conflict, called s)
               else let obj' = obj\<lparr>resourceVersion := Suc (resourceVersion obj)\<rparr>;
                        s' = (called s)\<lparr>writes := Suc (writes s)\<rparr>
                    in if deletionTimestamp obj' \<noteq> None \<and> finalizers obj' = []
                       then (Inr obj', s'\<lparr>parents := (parents s)(i := None)\<rparr>)
                       else (Inr obj', s'\<lparr>parents := (parents s)(i \<mapsto> obj')\<rparr>))"

text \<open>Modelled from the spec: \<open>Delete(id) \<rightarrow> error\<close>: "a delete request only sets the
  deletion-timestamp (soft-delete) while finalizers remain".\<close>

definition Delete :: "Store \<Rightarrow> ident \<Rightarrow> store_error option \<times> Store" where
  "Delete s i =
     (if unavailable s then (Some Transient, called s)
      else case parents s i of
             None \<Rightarrow> (Some NotFound, called s)
           | Some p \<Rightarrow>
               if finalizers p = [] then (None, (called s)\<lparr>parents := (parents s)(i := None)\<rparr>)
               else if deletionTimestamp p \<noteq> None then (None, called s)
               else (None, (called s)\<lparr>parents := (parents s)(i \<mapsto>
                             p\<lparr>deletionTimestamp := Some (clock s),
                               resourceVersion := Suc (resourceVersion p)\<rparr>),
                           clock := Suc (clock s)\<rparr>))"

subsection \<open>Dependent Index (spec, section 4.1)\<close>

text \<open>Modelled from the spec: \<open>HasDependents(parentID) \<rightarrow> (bool, error)\<close>, an existence
  check on a page of one; a query error is the result.\<close>

definition HasDependents :: "Store \<Rightarrow> ident \<Rightarrow> (store_error + bool) \<times> Store" where
  "HasDependents s parentID =
     (case List s parentID 1 of
        (Inl err, s') \<Rightarrow> (Inl err, s')
      | (Inr page, s') \<Rightarrow> (Inr (page \<noteq> []), s'\<lparr>log := Queried parentID (page \<noteq> []) # log s'\<rparr>))"

subsection \<open>Finalizer Guard (spec, section 4.2)\<close>

text \<open>Modelled from the spec: \<open>EnsurePresent(parent) \<rightarrow> updatedParent, error\<close>: no write when
  the token is there; otherwise a conditional update, and on a version conflict one re-fetch
  and one more attempt.\<close>

definition attach :: "Store \<Rightarrow> ident \<Rightarrow> Parent \<Rightarrow> (store_error + Parent) \<times> Store" where
  "attach s i parent =
     (case Update s i (parent\<lparr>finalizers := finalizers parent @ [guardToken]\<rparr>) of
        (Inr p, s') \<Rightarrow> (Inr p, s'\<lparr>log := Attached i # log s'\<rparr>)
      | (Inl err, s') \<Rightarrow> (Inl err, s'))"

definition EnsurePresent :: "Store \<Rightarrow> ident \<Rightarrow> Parent \<Rightarrow> (store_error + Parent) \<times> Store" where
  "EnsurePresent s i parent =
     (if guardToken \<in> set (finalizers parent) then (Inr parent, s)
      else case attach s i parent of
             (Inl Conflict, s1) \<Rightarrow>
               (case Get s1 i of
                  (Inl err, s2) \<Rightarrow> (Inl err, s2)
                | (Inr fresh, s2) \<Rightarrow>
                    if guardToken \<in> set (finalizers fresh) then (Inr fresh, s2)
                    else attach s2 i fresh)
           | r \<Rightarrow> r)"

text \<open>Modelled from the spec: \<open>EnsureAbsent(parent) \<rightarrow> updatedParent, error\<close>, likewise.\<close>

definition detach :: "Store \<Rightarrow> ident \<Rightarrow> Parent \<Rightarrow> (store_error + Parent) \<times> Store" where
  "detach s i parent =
     (case Update s i (parent\<lparr>finalizers := filter (\<lambda>t. t \<noteq> guardToken) (finalizers parent)\<rparr>) of
        (Inr p, s') \<Rightarrow> (Inr p, s'\<lparr>log := Removed i # log s'\<rparr>)
      | (Inl err, s') \<Rightarrow> (Inl err, s'))"

definition EnsureAbsent :: "Store \<Rightarrow> ident \<Rightarrow> Parent \<Rightarrow> (store_error + Parent) \<times> Store" where
  "EnsureAbsent s i parent =
     (if guardToken \<notin> set (finalizers parent) then (Inr parent, s)
      else case detach s i parent of
             (Inl Conflict, s1) \<Rightarrow>
               (case Get s1 i of
                  (Inl err, s2) \<Rightarrow> (Inl err, s2)
                | (Inr fresh, s2) \<Rightarrow>
                    if guardToken \<notin> set (finalizers fresh) then (Inr fresh, s2)
                    else detach s2 i fresh)
           | r \<Rightarrow> r)"

subsection \<open>Reconciler state machine (spec, section 4.3)\<close>

datatype outcome = Absent | Guarded | Blocked | Released | Failed store_error

text \<open>
  Modelled from the spec: one reconcile pass for an identity. The Parent is fetched (not
  found: nothing to do); the guard is attached "on first sight, independent of deletion
  intent"; with the deletion-timestamp set the Index is queried: dependents found block the
  deletion (requeue after the poll interval), no dependents lead to \<open>EnsureAbsent\<close>. Every
  error of the store or the Index ends the pass with that error (requeue with backoff).
\<close>

definition Reconcile :: "Store \<Rightarrow> ident \<Rightarrow> outcome \<times> Store" where
  "Reconcile s i =
     (case Get s i of
        (Inl NotFound, s1) \<Rightarrow> (Absent, s1)
      | (Inl err, s1) \<Rightarrow> (Failed err, s1)
      | (Inr parent, s1) \<Rightarrow>
          (case EnsurePresent s1 i parent of
             (Inl err, s2) \<Rightarrow> (Failed err, s2)
           | (Inr guarded, s2) \<Rightarrow>
               if deletionTimestamp guarded = None then (Guarded, s2)
               else (case HasDependents s2 i of
                       (Inl err, s3) \<Rightarrow> (Failed err, s3)
                     | (Inr True, s3) \<Rightarrow> (Blocked, s3)
                     | (Inr False, s3) \<Rightarrow>
                         (case EnsureAbsent s3 i guarded of
                            (Inl err, s4) \<Rightarrow> (Failed err, s4)
                          | (Inr released, s4) \<Rightarrow> (Released, s4)))))"

subsection \<open>The system: external actors and reconcile passes\<close>

text \<open>
  Modelled from the spec: Parents and Dependents are created and deleted by external actors,
  who never touch the guard token; the store's availability changes; the reconciler runs
  passes. \<open>run\<close> applies a sequence of such steps, so the reachable states are the
  \<open>run acts emptyStore\<close>.
\<close>

datatype action =
    CreateParent ident "string list"
  | DeleteParent ident
  | CreateDependent ident "ident option"
  | DeleteDependent ident
  | SetFaults "bool list"
  | ReconcilePass ident

fun step :: "Store \<Rightarrow> action \<Rightarrow> Store" where
  "step s (CreateParent i fs) =
     (if parents s i = None \<and> guardToken \<notin> set fs \<and> distinct fs
      then s\<lparr>parents := (parents s)(i \<mapsto> \<lparr>finalizers = fs, deletionTimestamp = None, resourceVersion = 0\<rparr>)\<rparr>
      else s)"
| "step s (DeleteParent i) = snd (Delete s i)"
| "step s (CreateDependent d r) =
     (if d \<in> dependentID ` set (dependents s) then s
      else s\<lparr>dependents := dependents s @ [\<lparr>dependentID = d, reference = r\<rparr>]\<rparr>)"
| "step s (DeleteDependent d) = s\<lparr>dependents := filter (\<lambda>x. dependentID x \<noteq> d) (dependents s)\<rparr>"
| "step s (SetFaults fs) = s\<lparr>faults := fs\<rparr>"
| "step s (ReconcilePass i) = snd (Reconcile s i)"

definition run :: "action list \<Rightarrow> Store \<Rightarrow> Store" where
  "run acts s = foldl step s acts"

text \<open>A Dependent that references the Parent is live in the store.\<close>

definition referenced :: "Store \<Rightarrow> ident \<Rightarrow> bool" where
  "referenced s i = (\<exists>d \<in> set (dependents s). reference d = Some i)"

definition guardPresent :: "Store \<Rightarrow> ident \<Rightarrow> bool" where
  "guardPresent s i = (case parents s i of None \<Rightarrow> False | Some p \<Rightarrow> guardToken \<in> set (finalizers p))"

text \<open>The ordering of the log (newest first): a guard removal comes right after an Index
  query for the same Parent that found nothing.\<close>

fun query_before_removal :: "event list \<Rightarrow> bool" where
  "query_before_removal [] = True"
| "query_before_removal (Removed i # es) =
     (case es of Queried j found # _ \<Rightarrow> j = i \<and> \<not> found \<and> query_before_removal es | _ \<Rightarrow> False)"
| "query_before_removal (e # es) = query_before_removal es"

section \<open>Properties of the encoding helpers\<close>










section \<open>Properties of HashForMap\<close>











section \<open>Properties of the PKCS8 helpers\<close>

lemma EncodePrivateKeyInPKCS8_block:
  "EncodePrivateKeyInPKCS8 marshal encode key = Inr pemBytes \<Longrightarrow>
     \<exists>der. marshal key = Inr der \<and> pemBytes = encode \<lparr>BlockType = ''RSA PRIVATE KEY'', Bytes = der\<rparr>"
  by (auto simp: EncodePrivateKeyInPKCS8_def split: sum.splits)

text \<open>
  Claim C9. Where PKCS8 marshalling of an RSA private key succeeds,
  \<open>DecodeRSAPrivateKeyFromPKCS8\<close> of \<open>EncodePrivateKeyInPKCS8\<close> of the key succeeds with the
  key itself, given the contracts of the library functions (\<open>pem.Decode\<close> reads back the
  block \<open>pem.EncodeToMemory\<close> wrote, \<open>x509.ParsePKCS8PrivateKey\<close> reads back the key that
  \<open>x509.MarshalPKCS8PrivateKey\<close> wrote): the encoder labels the block \<open>RSA PRIVATE KEY\<close>,
  and the decoder accepts a block of exactly that type, so it refuses a block of any other
  type, the standard \<open>PRIVATE KEY\<close> included.
\<close>

theorem PKCS8_round_trip:
  assumes enc: "EncodePrivateKeyInPKCS8 marshal encode key = Inr pemBytes"
    and pem: "\<And>der. marshal key = Inr der \<Longrightarrow>
                decode (encode \<lparr>BlockType = ''RSA PRIVATE KEY'', Bytes = der\<rparr>)
                  = Some \<lparr>BlockType = ''RSA PRIVATE KEY'', Bytes = der\<rparr>"
    and x509: "\<And>der. marshal key = Inr der \<Longrightarrow> parse der = Inr (RSAKey key)"
  shows "DecodeRSAPrivateKeyFromPKCS8 decode parse pemBytes = Inr key
    \<and> (\<exists>der. pemBytes = encode \<lparr>BlockType = ''RSA PRIVATE KEY'', Bytes = der\<rparr>)
    \<and> (\<forall>bs b. decode bs = Some b \<and> BlockType b \<noteq> ''RSA PRIVATE KEY''
          \<longrightarrow> DecodeRSAPrivateKeyFromPKCS8 decode parse bs
              = Inl ''could not decode the PEM-encoded RSA private key'')"
proof -
  from EncodePrivateKeyInPKCS8_block [OF enc] obtain der where
    der: "marshal key = Inr der" "pemBytes = encode \<lparr>BlockType = ''RSA PRIVATE KEY'', Bytes = der\<rparr>"
    by blast
  have "DecodeRSAPrivateKeyFromPKCS8 decode parse pemBytes = Inr key"
    by (simp add: DecodeRSAPrivateKeyFromPKCS8_def der(2) pem [OF der(1)] x509 [OF der(1)])
  moreover have "\<exists>der. pemBytes = encode \<lparr>BlockType = ''RSA PRIVATE KEY'', Bytes = der\<rparr>"
    using der(2) by blast
  moreover have "\<forall>bs b. decode bs = Some b \<and> BlockType b \<noteq> ''RSA PRIVATE KEY''
          \<longrightarrow> DecodeRSAPrivateKeyFromPKCS8 decode parse bs
              = Inl ''could not decode the PEM-encoded RSA private key''"
    by (simp add: DecodeRSAPrivateKeyFromPKCS8_def)
  ultimately show ?thesis by blast
qed

lemma demo_pem:
  "demo_Decode (demo_EncodeToMemory \<lparr>BlockType = ''RSA PRIVATE KEY'', Bytes = [1, 2, 3]\<rparr>)
     = Some \<lparr>BlockType = ''RSA PRIVATE KEY'', Bytes = [1, 2, 3]\<rparr>"
  by code_simp

lemma demo_standard_block:
  "demo_Decode (demo_EncodeToMemory \<lparr>BlockType = ''PRIVATE KEY'', Bytes = [1, 2, 3]\<rparr>)
     = Some \<lparr>BlockType = ''PRIVATE KEY'', Bytes = [1, 2, 3]\<rparr>"
  by code_simp

theorem PKCS8_round_trip_witness:
  "EncodePrivateKeyInPKCS8 demo_Marshal demo_EncodeToMemory demoKey
     = Inr (demo_EncodeToMemory \<lparr>BlockType = ''RSA PRIVATE KEY'', Bytes = [1, 2, 3]\<rparr>)
   \<and> DecodeRSAPrivateKeyFromPKCS8 demo_Decode demo_Parse
        (demo_EncodeToMemory \<lparr>BlockType = ''RSA PRIVATE KEY'', Bytes = [1, 2, 3]\<rparr>) = Inr demoKey
   \<and> DecodeRSAPrivateKeyFromPKCS8 demo_Decode demo_Parse
        (demo_EncodeToMemory \<lparr>BlockType = ''PRIVATE KEY'', Bytes = [1, 2, 3]\<rparr>)
       = Inl ''could not decode the PEM-encoded RSA private key''"
proof -
  have enc: "EncodePrivateKeyInPKCS8 demo_Marshal demo_EncodeToMemory demoKey
     = Inr (demo_EncodeToMemory \<lparr>BlockType = ''RSA PRIVATE KEY'', Bytes = [1, 2, 3]\<rparr>)"
    by (simp add: EncodePrivateKeyInPKCS8_def demo_Marshal_def)
  have pem: "demo_Decode (demo_EncodeToMemory \<lparr>BlockType = ''RSA PRIVATE KEY'', Bytes = der\<rparr>)
                  = Some \<lparr>BlockType = ''RSA PRIVATE KEY'', Bytes = der\<rparr>"
    if "demo_Marshal demoKey = Inr der" for der
    using that demo_pem by (simp add: demo_Marshal_def)
  have x509: "demo_Parse der = Inr (RSAKey demoKey)" if "demo_Marshal demoKey = Inr der" for der
    using that by (auto simp: demo_Marshal_def demo_Parse_def)
  have ty: "BlockType \<lparr>BlockType = ''PRIVATE KEY'', Bytes = [1, 2, 3]\<rparr> \<noteq> ''RSA PRIVATE KEY''"
    by simp
  have "DecodeRSAPrivateKeyFromPKCS8 demo_Decode demo_Parse
          (demo_EncodeToMemory \<lparr>BlockType = ''RSA PRIVATE KEY'', Bytes = [1, 2, 3]\<rparr>) = Inr demoKey
    \<and> (\<exists>der. demo_EncodeToMemory \<lparr>BlockType = ''RSA PRIVATE KEY'', Bytes = [1, 2, 3]\<rparr>
               = demo_EncodeToMemory \<lparr>BlockType = ''RSA PRIVATE KEY'', Bytes = der\<rparr>)
    \<and> (\<forall>bs b. demo_Decode bs = Some b \<and> BlockType b \<noteq> ''RSA PRIVATE KEY''
          \<longrightarrow> DecodeRSAPrivateKeyFromPKCS8 demo_Decode demo_Parse bs
              = Inl ''could not decode the PEM-encoded RSA private key'')"
  proof (rule PKCS8_round_trip [OF enc])
    fix der
    assume m: "demo_Marshal demoKey = Inr der"
    from pem [OF m]
    show "demo_Decode (demo_EncodeToMemory \<lparr>BlockType = ''RSA PRIVATE KEY'', Bytes = der\<rparr>)
            = Some \<lparr>BlockType = ''RSA PRIVATE KEY'', Bytes = der\<rparr>" .
    from x509 [OF m] show "demo_Parse der = Inr (RSAKey demoKey)" .
  qed
  with demo_standard_block ty enc show ?thesis by blast
qed

section \<open>Properties of the validators\<close>

text \<open>
  Claim C7, as stated, fails for \<open>ValidateIPFamilies\<close>: for the same list \<open>[IPv6]\<close> and the
  same path it reports \<open>IPv6 single-stack networking is not supported\<close> while the feature
  gate \<open>IPv6SingleStack\<close> of the global \<open>features.DefaultFeatureGate\<close> is disabled, and
  nothing once it is enabled.
\<close>

theorem ValidateIPFamilies_gate_counterexample:
  "ValidateIPFamilies gardenerConsts gateDisabled [''IPv6''] (Child Root ''ipFamilies'')
     = [Invalid (Child Root ''ipFamilies'') (StringsValue [''IPv6''])
          ''IPv6 single-stack networking is not supported'']
   \<and> ValidateIPFamilies gardenerConsts gateEnabled [''IPv6''] (Child Root ''ipFamilies'') = []"
  by (simp add: ValidateIPFamilies_def gardenerConsts_def gateDisabled_def gateEnabled_def
      availableIPFamilies_def Enabled_def)

text \<open>
  Claim C7, amended. The result of \<open>ValidateIPFamilies\<close> is determined by the list, the path
  and the setting of the one feature gate \<open>IPv6SingleStack\<close>: two states of the feature gate
  that agree on it give the same errors; and the gate is not looked at all unless the list
  passes the checks of the loop and starts with IPv6. (The other validators of the file take
  no global state at all.)
\<close>

theorem ValidateIPFamilies_depends_on_gate_only:
  "(gate (IPv6SingleStack c) = gate' (IPv6SingleStack c)
      \<longrightarrow> ValidateIPFamilies c gate ipFamilies fldPath = ValidateIPFamilies c gate' ipFamilies fldPath)
   \<and> (ipFamilies = [] \<or> hd ipFamilies \<noteq> IPFamilyIPv6 c \<or> ipFamilies_loop c fldPath 0 ipFamilies [] [] \<noteq> []
      \<longrightarrow> ValidateIPFamilies c gate ipFamilies fldPath = ValidateIPFamilies c gate' ipFamilies fldPath)"
  by (auto simp: ValidateIPFamilies_def Enabled_def Let_def)

theorem ValidateIPFamilies_depends_on_gate_only_witness:
  "gateDisabled (IPv6SingleStack gardenerConsts) = (gateDisabled(''Other'' := True)) (IPv6SingleStack gardenerConsts)
   \<and> ValidateIPFamilies gardenerConsts gateDisabled [''IPv6''] (Child Root ''ipFamilies'')
     = ValidateIPFamilies gardenerConsts (gateDisabled(''Other'' := True)) [''IPv6''] (Child Root ''ipFamilies'')
   \<and> hd [''IPv4'', ''IPv6''] \<noteq> IPFamilyIPv6 gardenerConsts
   \<and> ValidateIPFamilies gardenerConsts gateDisabled [''IPv4'', ''IPv6''] Root
     = ValidateIPFamilies gardenerConsts gateEnabled [''IPv4'', ''IPv6''] Root"
proof -
  have a: "gateDisabled (IPv6SingleStack gardenerConsts)
             = (gateDisabled(''Other'' := True)) (IPv6SingleStack gardenerConsts)"
    by (simp add: gardenerConsts_def)
  have b: "hd [''IPv4'', ''IPv6''] \<noteq> IPFamilyIPv6 gardenerConsts"
    by (simp add: gardenerConsts_def)
  from ValidateIPFamilies_depends_on_gate_only
         [of gateDisabled gardenerConsts "gateDisabled(''Other'' := True)" "[''IPv6'']" "Child Root ''ipFamilies''"]
       ValidateIPFamilies_depends_on_gate_only
         [of gateDisabled gardenerConsts gateEnabled "[''IPv4'', ''IPv6'']" Root]
       a b
  show ?thesis by blast
qed

section \<open>Properties of the finalizer protocol\<close>

lemma called_simps [simp]:
  "parents (called s) = parents s" "dependents (called s) = dependents s" "log (called s) = log s"
  "writes (called s) = writes s" "clock (called s) = clock s" "faults (called s) = tl (faults s)"
  by (simp_all add: called_def)

lemma unavailable_Nil [simp]: "faults s = [] \<Longrightarrow> \<not> unavailable s"
  by (simp add: unavailable_def)

lemma List_page_empty:
  "List s i 1 = (Inr page, s') \<Longrightarrow> (page = []) = (\<not> referenced s i)"
  by (auto simp: List_def referenced_def filter_empty_conv take_Suc split: if_splits list.splits)

text \<open>
  Claim C6. \<open>HasDependents\<close> answers \<open>false\<close> only when the query went through and no
  Dependent in the store references the Parent (a page of one that is empty is exhaustive);
  an error of the query is the result of \<open>HasDependents\<close>, with the store as the query left
  it, so an unavailable store never reads as "no dependents".
\<close>

theorem HasDependents_error_discipline:
  "(HasDependents s i = (Inr False, s') \<longrightarrow> \<not> unavailable s \<and> \<not> referenced s i)
   \<and> (List s i 1 = (Inl err, s1) \<longrightarrow> HasDependents s i = (Inl err, s1))
   \<and> (unavailable s \<longrightarrow> fst (HasDependents s i) = Inl Transient)
   \<and> (\<not> unavailable s \<longrightarrow> fst (HasDependents s i) = Inr (referenced s i))"
proof (intro conjI impI)
  assume h: "HasDependents s i = (Inr False, s')"
  then obtain page s2 where l: "List s i 1 = (Inr page, s2)" and e: "page = []"
    by (auto simp: HasDependents_def split: prod.splits sum.splits)
  from l show "\<not> unavailable s" by (auto simp: List_def split: if_splits)
  from List_page_empty [OF l] e show "\<not> referenced s i" by simp
next
  assume "List s i 1 = (Inl err, s1)"
  then show "HasDependents s i = (Inl err, s1)" by (simp add: HasDependents_def)
next
  assume "unavailable s"
  then show "fst (HasDependents s i) = Inl Transient" by (simp add: HasDependents_def List_def)
next
  assume u: "\<not> unavailable s"
  then obtain page s2 where l: "List s i 1 = (Inr page, s2)" by (simp add: List_def)
  from List_page_empty [OF l] l show "fst (HasDependents s i) = Inr (referenced s i)"
    by (simp add: HasDependents_def)
qed


lemma Update_Inr:
  "Update s i obj = (Inr p', s') \<Longrightarrow>
     p' = obj\<lparr>resourceVersion := Suc (resourceVersion obj)\<rparr> \<and> writes s' = Suc (writes s)
     \<and> log s' = log s \<and> dependents s' = dependents s \<and> faults s' = tl (faults s)
     \<and> clock s' = clock s
     \<and> parents s' = (if deletionTimestamp obj \<noteq> None \<and> finalizers obj = []
                      then (parents s)(i := None) else (parents s)(i \<mapsto> p'))"
  by (auto simp: Update_def Let_def split: if_splits option.splits)

lemma Update_Inl: "Update s i obj = (Inl err, s') \<Longrightarrow> s' = called s"
  by (auto simp: Update_def Let_def split: if_splits option.splits)

lemma Update_current:
  "parents s i = Some p \<Longrightarrow> \<not> unavailable s \<Longrightarrow> resourceVersion obj = resourceVersion p \<Longrightarrow>
     \<exists>s'. Update s i obj = (Inr (obj\<lparr>resourceVersion := Suc (resourceVersion obj)\<rparr>), s')"
  by (auto simp: Update_def Let_def)

lemma Get_result: "Get s i = (r, s') \<Longrightarrow> s' = called s"
  by (auto simp: Get_def split: if_splits option.splits)

lemma Get_Inr: "Get s i = (Inr p, s') \<Longrightarrow> parents s i = Some p"
  by (auto simp: Get_def split: if_splits option.splits)

lemma attach_Inr:
  "attach s i p = (Inr p', s') \<Longrightarrow>
     finalizers p' = finalizers p @ [guardToken] \<and> deletionTimestamp p' = deletionTimestamp p
     \<and> writes s' = Suc (writes s) \<and> log s' = Attached i # log s \<and> dependents s' = dependents s
     \<and> parents s' = (parents s)(i \<mapsto> p')"
  by (auto simp: attach_def split: prod.splits sum.splits dest!: Update_Inr)

lemma attach_Inl: "attach s i p = (Inl err, s') \<Longrightarrow> s' = called s"
  by (auto simp: attach_def split: prod.splits sum.splits dest!: Update_Inl)

lemma detach_Inr_effect:
  "detach s i p = (Inr p', s') \<Longrightarrow>
     finalizers p' = filter (\<lambda>t. t \<noteq> guardToken) (finalizers p) \<and> deletionTimestamp p' = deletionTimestamp p
     \<and> writes s' = Suc (writes s) \<and> log s' = Removed i # log s \<and> dependents s' = dependents s
     \<and> parents s' = (if deletionTimestamp p \<noteq> None \<and> filter (\<lambda>t. t \<noteq> guardToken) (finalizers p) = []
                      then (parents s)(i := None) else (parents s)(i \<mapsto> p'))"
  by (auto simp: detach_def split: prod.splits sum.splits dest!: Update_Inr)

lemma detach_Inl: "detach s i p = (Inl err, s') \<Longrightarrow> s' = called s"
  by (auto simp: detach_def split: prod.splits sum.splits dest!: Update_Inl)

lemma EnsurePresent_Inr:
  assumes "EnsurePresent s i p = (Inr p', s')"
  shows "guardToken \<in> set (finalizers p') \<and> writes s' \<le> Suc (writes s)
         \<and> dependents s' = dependents s
         \<and> (log s' = log s \<or> log s' = Attached i # log s)"
  using assms
  by (auto simp: EnsurePresent_def split: if_splits prod.splits sum.splits store_error.splits
      dest!: attach_Inr attach_Inl Get_result)

lemma EnsureAbsent_Inr:
  assumes "EnsureAbsent s i p = (Inr p', s')"
  shows "guardToken \<notin> set (finalizers p') \<and> writes s' \<le> Suc (writes s)
         \<and> dependents s' = dependents s
         \<and> (log s' = log s \<or> log s' = Removed i # log s)"
  using assms
  by (auto simp: EnsureAbsent_def split: if_splits prod.splits sum.splits store_error.splits
      dest!: detach_Inr_effect detach_Inl Get_result)


text \<open>
  Claim C5. A call of \<open>EnsurePresent\<close> (of \<open>EnsureAbsent\<close>) on the Parent a successful
  call returned changes nothing and writes nothing, and one call writes at most once; a
  token that already has the desired presence means an immediate return without a write; on
  the current Parent of a store that is up, two calls in a row make exactly one write.
\<close>

theorem Guard_idempotent:
  "(EnsurePresent s i p = (Inr p', s') \<longrightarrow>
       EnsurePresent s' i p' = (Inr p', s') \<and> writes s' \<le> Suc (writes s))
   \<and> (EnsureAbsent s i p = (Inr p', s') \<longrightarrow>
       EnsureAbsent s' i p' = (Inr p', s') \<and> writes s' \<le> Suc (writes s))
   \<and> (guardToken \<in> set (finalizers p) \<longrightarrow> EnsurePresent s i p = (Inr p, s))
   \<and> (guardToken \<notin> set (finalizers p) \<longrightarrow> EnsureAbsent s i p = (Inr p, s))
   \<and> (parents s i = Some p \<and> faults s = [] \<and> guardToken \<notin> set (finalizers p) \<longrightarrow>
        (\<exists>p1 s1. EnsurePresent s i p = (Inr p1, s1) \<and> EnsurePresent s1 i p1 = (Inr p1, s1)
                 \<and> writes s1 = Suc (writes s)))
   \<and> (parents s i = Some p \<and> faults s = [] \<and> guardToken \<in> set (finalizers p) \<longrightarrow>
        (\<exists>p1 s1. EnsureAbsent s i p = (Inr p1, s1) \<and> EnsureAbsent s1 i p1 = (Inr p1, s1)
                 \<and> writes s1 = Suc (writes s)))"
proof -
  have c1: "EnsurePresent s' i p' = (Inr p', s') \<and> writes s' \<le> Suc (writes s)"
    if a: "EnsurePresent s i p = (Inr p', s')"
    using EnsurePresent_Inr [OF a] by (simp add: EnsurePresent_def)
  have c2: "EnsureAbsent s' i p' = (Inr p', s') \<and> writes s' \<le> Suc (writes s)"
    if a: "EnsureAbsent s i p = (Inr p', s')"
    using EnsureAbsent_Inr [OF a] by (simp add: EnsureAbsent_def)
  have c3: "EnsurePresent s i p = (Inr p, s)" if "guardToken \<in> set (finalizers p)"
    using that by (simp add: EnsurePresent_def)
  have c4: "EnsureAbsent s i p = (Inr p, s)" if "guardToken \<notin> set (finalizers p)"
    using that by (simp add: EnsureAbsent_def)
  have c5: "\<exists>p1 s1. EnsurePresent s i p = (Inr p1, s1) \<and> EnsurePresent s1 i p1 = (Inr p1, s1)
                 \<and> writes s1 = Suc (writes s)"
    if a: "parents s i = Some p \<and> faults s = [] \<and> guardToken \<notin> set (finalizers p)"
  proof -
    let ?obj = "p\<lparr>finalizers := finalizers p @ [guardToken]\<rparr>"
    let ?p1 = "?obj\<lparr>resourceVersion := Suc (resourceVersion ?obj)\<rparr>"
    from a Update_current [of s i p ?obj] obtain s0 where u: "Update s i ?obj = (Inr ?p1, s0)"
      by auto
    let ?s1 = "s0\<lparr>log := Attached i # log s0\<rparr>"
    from u a have "EnsurePresent s i p = (Inr ?p1, ?s1)"
      by (simp add: EnsurePresent_def attach_def)
    moreover have "EnsurePresent ?s1 i ?p1 = (Inr ?p1, ?s1)"
      by (simp add: EnsurePresent_def)
    moreover from Update_Inr [OF u] have "writes ?s1 = Suc (writes s)" by simp
    ultimately show ?thesis by blast
  qed
  have c6: "\<exists>p1 s1. EnsureAbsent s i p = (Inr p1, s1) \<and> EnsureAbsent s1 i p1 = (Inr p1, s1)
                 \<and> writes s1 = Suc (writes s)"
    if a: "parents s i = Some p \<and> faults s = [] \<and> guardToken \<in> set (finalizers p)"
  proof -
    let ?obj = "p\<lparr>finalizers := filter (\<lambda>t. t \<noteq> guardToken) (finalizers p)\<rparr>"
    let ?p1 = "?obj\<lparr>resourceVersion := Suc (resourceVersion ?obj)\<rparr>"
    from a Update_current [of s i p ?obj] obtain s0 where u: "Update s i ?obj = (Inr ?p1, s0)"
      by auto
    let ?s1 = "s0\<lparr>log := Removed i # log s0\<rparr>"
    from u a have "EnsureAbsent s i p = (Inr ?p1, ?s1)"
      by (simp add: EnsureAbsent_def detach_def)
    moreover have "EnsureAbsent ?s1 i ?p1 = (Inr ?p1, ?s1)"
      by (simp add: EnsureAbsent_def)
    moreover from Update_Inr [OF u] have "writes ?s1 = Suc (writes s)" by simp
    ultimately show ?thesis by blast
  qed
  from c1 c2 c3 c4 c5 c6 show ?thesis by blast
qed

lemma guardPresent_called [simp]: "guardPresent (called s) i = guardPresent s i"
  by (simp add: guardPresent_def)

lemma referenced_called [simp]: "referenced (called s) i = referenced s i"
  by (simp add: referenced_def)

lemma HasDependents_Inr:
  "HasDependents s i = (Inr b, s') \<Longrightarrow>
     b = referenced s i \<and> log s' = Queried i b # log s \<and> dependents s' = dependents s
     \<and> parents s' = parents s \<and> writes s' = writes s"
  by (auto simp: HasDependents_def List_def referenced_def filter_empty_conv take_Suc
      split: prod.splits sum.splits if_splits list.splits)

lemma HasDependents_Inl: "HasDependents s i = (Inl err, s') \<Longrightarrow> s' = called s"
  by (auto simp: HasDependents_def List_def split: prod.splits sum.splits if_splits)

lemma attach_parents:
  "attach s i p = (r, s') \<Longrightarrow>
     dependents s' = dependents s \<and> (\<forall>j. j \<noteq> i \<longrightarrow> parents s' j = parents s j)
     \<and> (guardPresent s i \<longrightarrow> guardPresent s' i)
     \<and> (log s' = log s \<or> log s' = Attached i # log s)
     \<and> (\<forall>err. r = Inl err \<longrightarrow> s' = called s)"
  by (cases r) (auto simp: guardPresent_def dest!: attach_Inr attach_Inl)

lemma EnsurePresent_parents:
  "EnsurePresent s i p = (r, s') \<Longrightarrow>
     dependents s' = dependents s \<and> (\<forall>j. j \<noteq> i \<longrightarrow> parents s' j = parents s j)
     \<and> (guardPresent s i \<longrightarrow> guardPresent s' i)
     \<and> (log s' = log s \<or> log s' = Attached i # log s)"
  by (auto simp: EnsurePresent_def split: if_splits prod.splits sum.splits store_error.splits
      dest!: attach_parents Get_result)

lemma detach_parents:
  "detach s i p = (r, s') \<Longrightarrow>
     dependents s' = dependents s \<and> (\<forall>j. j \<noteq> i \<longrightarrow> parents s' j = parents s j)
     \<and> (log s' = log s \<or> log s' = Removed i # log s)
     \<and> (\<forall>err. r = Inl err \<longrightarrow> s' = called s)"
  by (cases r) (auto dest!: detach_Inr_effect detach_Inl)

lemma EnsureAbsent_parents:
  "EnsureAbsent s i p = (r, s') \<Longrightarrow>
     dependents s' = dependents s \<and> (\<forall>j. j \<noteq> i \<longrightarrow> parents s' j = parents s j)
     \<and> (log s' = log s \<or> log s' = Removed i # log s)"
  by (auto simp: EnsureAbsent_def split: if_splits prod.splits sum.splits store_error.splits
      dest!: detach_parents Get_result)


theorem HasDependents_error_discipline_witness:
  "HasDependents (emptyStore\<lparr>faults := [True]\<rparr>) ''p'' = (Inl Transient, emptyStore)
   \<and> HasDependents emptyStore ''p''
       = (Inr False, emptyStore\<lparr>log := [Queried ''p'' False]\<rparr>)
   \<and> \<not> referenced emptyStore ''p''
   \<and> fst (HasDependents (emptyStore\<lparr>dependents := [\<lparr>dependentID = ''d'', reference = Some ''p''\<rparr>]\<rparr>) ''p'')
       = Inr True"
proof -
  have l: "List (emptyStore\<lparr>faults := [True]\<rparr>) ''p'' 1 = (Inl Transient, emptyStore)"
    by (simp add: List_def unavailable_def called_def emptyStore_def)
  have h: "HasDependents emptyStore ''p'' = (Inr False, emptyStore\<lparr>log := [Queried ''p'' False]\<rparr>)"
    by (simp add: HasDependents_def List_def unavailable_def called_def emptyStore_def)
  have u: "\<not> unavailable (emptyStore\<lparr>dependents := [\<lparr>dependentID = ''d'', reference = Some ''p''\<rparr>]\<rparr>)"
    by (simp add: unavailable_def emptyStore_def)
  have r: "referenced (emptyStore\<lparr>dependents := [\<lparr>dependentID = ''d'', reference = Some ''p''\<rparr>]\<rparr>) ''p''"
    by (simp add: referenced_def)
  from HasDependents_error_discipline [of "emptyStore\<lparr>faults := [True]\<rparr>" "''p''" emptyStore Transient emptyStore] l
  have "HasDependents (emptyStore\<lparr>faults := [True]\<rparr>) ''p'' = (Inl Transient, emptyStore)"
    by blast
  moreover from HasDependents_error_discipline [of emptyStore "''p''" "emptyStore\<lparr>log := [Queried ''p'' False]\<rparr>"] h
  have "\<not> referenced emptyStore ''p''" by blast
  moreover from HasDependents_error_discipline
      [of "emptyStore\<lparr>dependents := [\<lparr>dependentID = ''d'', reference = Some ''p''\<rparr>]\<rparr>" "''p''"] u r
  have "fst (HasDependents (emptyStore\<lparr>dependents := [\<lparr>dependentID = ''d'', reference = Some ''p''\<rparr>]\<rparr>) ''p'')
       = Inr True" by simp
  ultimately show ?thesis using h by blast
qed


end
